theory Spec2Isabelle
  imports Complex_Main
begin

section \<open>JavaScript values\<close>

text \<open>
  The web client is JavaScript. The values that reach the functions modelled below are JSON
  data and option objects: \<open>undefined\<close>, \<open>null\<close>, booleans, numbers, strings and plain objects.
  Numbers are restricted to the integers (counts, ids, page numbers); an object is the list of
  its own enumerable properties in the order \<open>Object.keys\<close> reports them, no key twice.
\<close>

datatype jsval =
    JUndefined
  | JNull
  | JBool bool
  | JNum int
  | JStr string
  | JObj "(string \<times> jsval) list"

text \<open>\<open>ToBoolean\<close>: what an \<open>if (v)\<close> or a \<open>!v\<close> sees.\<close>

fun truthy :: "jsval \<Rightarrow> bool" where
  "truthy JUndefined = False"
| "truthy JNull = False"
| "truthy (JBool b) = b"
| "truthy (JNum n) = (n \<noteq> 0)"
| "truthy (JStr s) = (s \<noteq> [])"
| "truthy (JObj ps) = True"

text \<open>
  Decimal digits of a natural number, as \<open>Number.prototype.toString\<close> prints an integer of
  magnitude below \<open>10^21\<close> (from there on JavaScript prints an exponent; the counts and
  page numbers printed here are far below).
\<close>

definition digitChar :: "nat \<Rightarrow> char" where
  "digitChar d = ''0123456789'' ! (d mod 10)"

fun string_of_nat :: "nat \<Rightarrow> string" where
  "string_of_nat n =
     (if n < 10 then [digitChar n]
      else string_of_nat (n div 10) @ [digitChar (n mod 10)])"

definition string_of_int :: "int \<Rightarrow> string" where
  "string_of_int i = (if i < 0 then CHR ''-'' # string_of_nat (nat (- i)) else string_of_nat (nat i))"

text \<open>\<open>ToString\<close>: what a template literal \<open>`${v}`\<close> or a string parameter receives.\<close>

fun toStringJS :: "jsval \<Rightarrow> string" where
  "toStringJS JUndefined = ''undefined''"
| "toStringJS JNull = ''null''"
| "toStringJS (JBool b) = (if b then ''true'' else ''false'')"
| "toStringJS (JNum n) = string_of_int n"
| "toStringJS (JStr s) = s"
| "toStringJS (JObj ps) = ''[object Object]''"

text \<open>
  \<open>obj[key]\<close> on an object: the property's value, \<open>undefined\<close> when the object has no such
  property.
\<close>

definition objGet :: "(string \<times> jsval) list \<Rightarrow> string \<Rightarrow> jsval" where
  "objGet ps key = (case map_of ps key of None \<Rightarrow> JUndefined | Some v \<Rightarrow> v)"

text \<open>
  \<open>v.key\<close> on any value: reading a property of \<open>undefined\<close> or \<open>null\<close> throws a TypeError
  (\<open>None\<close>); a primitive has none of the properties read here.
\<close>

fun getProp :: "jsval \<Rightarrow> string \<Rightarrow> jsval option" where
  "getProp JUndefined key = None"
| "getProp JNull key = None"
| "getProp (JObj ps) key = Some (objGet ps key)"
| "getProp v key = Some JUndefined"

section \<open>Date utilities (\<open>App.normalizeUtcDate\<close>, \<open>App.formatDate\<close>)\<close>

text \<open>
  \<^verbatim>\<open>
  App.normalizeUtcDate = function(dateStr) {
      if (!dateStr) return dateStr;
      const hasTimezone = /(Z|[+-]\d{2}:\d{2}|[+-]\d{4})$/i.test(dateStr);
      if (!hasTimezone) {
          return dateStr + 'Z';
      }
      return dateStr;
  };
  \<close>
  The regular expression is embedded as the matcher it denotes. \<open>\d\<close> is an ASCII digit,
  the flag \<open>i\<close> makes \<open>Z\<close> match \<open>z\<close> too (no other character of the pattern has a case),
  and \<open>$\<close> without the flag \<open>m\<close> is the end of the input.
\<close>

definition isDigit :: "char \<Rightarrow> bool" where
  "isDigit c = (c \<in> set ''0123456789'')"

definition isSign :: "char \<Rightarrow> bool" where
  "isSign c = (c = CHR ''+'' \<or> c = CHR ''-'')"

text \<open>The three alternatives of the group, each followed by \<open>$\<close>: the rest of the input is
  exactly one of them.\<close>

definition altZ :: "string \<Rightarrow> bool" where
  "altZ s = (s = ''Z'' \<or> s = ''z'')"

fun altColon :: "string \<Rightarrow> bool" where
  "altColon [sg, h1, h2, c, m1, m2] =
     (isSign sg \<and> isDigit h1 \<and> isDigit h2 \<and> c = CHR '':'' \<and> isDigit m1 \<and> isDigit m2)"
| "altColon _ = False"

fun altCompact :: "string \<Rightarrow> bool" where
  "altCompact [sg, d1, d2, d3, d4] =
     (isSign sg \<and> isDigit d1 \<and> isDigit d2 \<and> isDigit d3 \<and> isDigit d4)"
| "altCompact _ = False"

definition tzAt :: "string \<Rightarrow> bool" where
  "tzAt s = (altZ s \<or> altColon s \<or> altCompact s)"

text \<open>\<open>RegExp.prototype.test\<close>: the pattern is tried at every start index, left to right.\<close>

fun hasTimezone :: "string \<Rightarrow> bool" where
  "hasTimezone [] = tzAt []"
| "hasTimezone (c # cs) = (tzAt (c # cs) \<or> hasTimezone cs)"

definition normalizeUtcDate :: "string \<Rightarrow> string" where
  "normalizeUtcDate dateStr =
     (if dateStr = [] then dateStr
      else if \<not> hasTimezone dateStr then dateStr @ ''Z''
      else dateStr)"

text \<open>
  The claim's wording, to compare with the matcher: a timezone designator is \<open>Z\<close>,
  \<open>+HH:MM\<close>/\<open>-HH:MM\<close> or \<open>+HHMM\<close>/\<open>-HHMM\<close>, a sign and digits in that shape. A string
  carries one when it ends with one.
\<close>

definition tzDesignator :: "string \<Rightarrow> bool" where
  "tzDesignator d =
     (d = ''Z''
      \<or> (length d = 6 \<and> isSign (d ! 0) \<and> isDigit (d ! 1) \<and> isDigit (d ! 2)
           \<and> d ! 3 = CHR '':'' \<and> isDigit (d ! 4) \<and> isDigit (d ! 5))
      \<or> (length d = 5 \<and> isSign (d ! 0) \<and> isDigit (d ! 1) \<and> isDigit (d ! 2)
           \<and> isDigit (d ! 3) \<and> isDigit (d ! 4)))"

definition endsWithTzDesignator :: "string \<Rightarrow> bool" where
  "endsWithTzDesignator s = (\<exists>p d. s = p @ d \<and> tzDesignator d)"

text \<open>A trailing lower-case \<open>z\<close>, which the flag \<open>i\<close> lets the pattern's \<open>Z\<close> match.\<close>

definition endsWithLowerZ :: "string \<Rightarrow> bool" where
  "endsWithLowerZ s = (s \<noteq> [] \<and> last s = CHR ''z'')"

text \<open>
  A date written with the year last, as \<open>DD-MM-YYYY\<close>: two digits, a hyphen, two digits, a
  hyphen and four digits. It names a day and carries no timezone information.
\<close>

definition isYearLastDate :: "string \<Rightarrow> bool" where
  "isYearLastDate s =
     (length s = 10 \<and> isDigit (s ! 0) \<and> isDigit (s ! 1) \<and> s ! 2 = CHR ''-''
      \<and> isDigit (s ! 3) \<and> isDigit (s ! 4) \<and> s ! 5 = CHR ''-''
      \<and> isDigit (s ! 6) \<and> isDigit (s ! 7) \<and> isDigit (s ! 8) \<and> isDigit (s ! 9))"

text \<open>
  \<^verbatim>\<open>
  App.formatDate = function(dateStr) {
      const normalizedDateStr = App.normalizeUtcDate(dateStr);
      const date = new Date(normalizedDateStr);
      if (isNaN(date.getTime())) return dateStr;
      return date.toLocaleString('zh-CN', { ... });
  };
  \<close>
  \<open>new Date(string)\<close> and \<open>toLocaleString\<close> are the engine's: the first is the parameter
  \<open>dateParse\<close>, giving the time value in milliseconds or \<open>None\<close> for an invalid date (whose
  \<open>getTime()\<close> is NaN), the second the parameter \<open>toLocaleString\<close>. Neither throws on a
  string or on a valid date, so the function has no error branch.
\<close>

definition formatDate :: "(string \<Rightarrow> int option) \<Rightarrow> (int \<Rightarrow> string) \<Rightarrow> string \<Rightarrow> string" where
  "formatDate dateParse toLocaleString dateStr =
     (let normalizedDateStr = normalizeUtcDate dateStr
      in case dateParse normalizedDateStr of
           None \<Rightarrow> dateStr
         | Some t \<Rightarrow> toLocaleString t)"

section \<open>API client (\<open>API.buildURL\<close>, api.js)\<close>

text \<open>
  \<^verbatim>\<open>
  buildURL(path, params = {}) {
      const url = new URL(path, window.location.origin);
      Object.keys(params).forEach(key => {
          if (params[key] !== null && params[key] !== undefined) {
              url.searchParams.append(key, params[key]);
          }
      });
      return url.toString();
  }
  \<close>
  A URL object is the part before the query (\<open>origin\<close> and path), the list of its query
  pairs and the fragment. \<open>new URL(path, origin)\<close> and \<open>url.toString()\<close> are the browser's:
  the first is the parameter \<open>newURL\<close>, \<open>None\<close> when it throws a TypeError, the second the
  parameter \<open>urlToString\<close>. \<open>searchParams.append\<close> adds the pair at the end, the value
  converted with \<open>ToString\<close>.
\<close>

record url =
  locator :: string
  searchParams :: "(string \<times> string) list"
  fragment :: string

definition Object_keys :: "(string \<times> jsval) list \<Rightarrow> string list" where
  "Object_keys params = map fst params"

definition searchParams_append :: "url \<Rightarrow> string \<Rightarrow> jsval \<Rightarrow> url" where
  "searchParams_append u key v = u\<lparr>searchParams := searchParams u @ [(key, toStringJS v)]\<rparr>"

text \<open>The \<open>forEach\<close> over the keys, with the URL object it mutates passed along.\<close>

fun forEach_key :: "(string \<times> jsval) list \<Rightarrow> url \<Rightarrow> string list \<Rightarrow> url" where
  "forEach_key params u [] = u"
| "forEach_key params u (key # keys) =
     forEach_key params
       (if objGet params key \<noteq> JNull \<and> objGet params key \<noteq> JUndefined
        then searchParams_append u key (objGet params key)
        else u)
       keys"

definition buildURL_object :: "(string \<Rightarrow> url option) \<Rightarrow> string \<Rightarrow> (string \<times> jsval) list \<Rightarrow> url option" where
  "buildURL_object newURL path params =
     (case newURL path of
        None \<Rightarrow> None
      | Some u \<Rightarrow> Some (forEach_key params u (Object_keys params)))"

definition buildURL :: "(string \<Rightarrow> url option) \<Rightarrow> (url \<Rightarrow> string) \<Rightarrow> string \<Rightarrow> (string \<times> jsval) list \<Rightarrow> string option" where
  "buildURL newURL urlToString path params = map_option urlToString (buildURL_object newURL path params)"

text \<open>
  The serialisation of a URL whose query names and values need no percent-encoding, as
  \<open>url.toString()\<close> gives it: the pairs \<open>name=value\<close> joined by \<open>&\<close> after a \<open>?\<close>.
\<close>

fun joinQuery :: "(string \<times> string) list \<Rightarrow> string" where
  "joinQuery [] = []"
| "joinQuery [(k, v)] = k @ ''='' @ v"
| "joinQuery ((k, v) # rest) = k @ ''='' @ v @ ''&'' @ joinQuery rest"

definition plainToString :: "url \<Rightarrow> string" where
  "plainToString u =
     locator u @ (if searchParams u = [] then [] else ''?'' @ joinQuery (searchParams u)) @ fragment u"

section \<open>Data table (\<open>DataTable\<close>, table.js)\<close>

subsection \<open>Row actions\<close>

text \<open>
  \<^verbatim>\<open>
  handleRowAction(action, id, row) {
      const actionConfig = this.options.rowActions?.(row).find(a => a.name === action);
      if (actionConfig?.onClick) {
          // Execute the onClick function (stored as string or function)
          if (typeof actionConfig.onClick === 'function') {
              actionConfig.onClick(row, action);
          } else if (typeof actionConfig.onClick === 'string') {
              // Execute string as JavaScript code
              new Function(actionConfig.onClick)();
          }
      }
  }
  \<close>
  \<open>options.rowActions\<close> is \<open>null\<close> (\<open>None\<close>, the default) or a function from the row to the
  list of its action objects. An action's \<open>onClick\<close> is a function value (of an abstract
  type \<open>'f\<close>) or any other value; a missing \<open>onClick\<close> is \<open>undefined\<close>. What the handler
  executes is returned as an effect: a call of the function value with the row and the
  action name, or the compilation and call of a string as code (\<open>new Function(code)()\<close>).
\<close>

datatype 'f onclick = OnClickFunction 'f | OnClickValue jsval

record 'f rowAction =
  name :: string
  onClick :: "'f onclick"

datatype ('f, 'row) effect = CallFunction 'f 'row string | NewFunction string

definition handleRowAction ::
  "('row \<Rightarrow> 'f rowAction list) option \<Rightarrow> string \<Rightarrow> int \<Rightarrow> 'row \<Rightarrow> ('f, 'row) effect option" where
  "handleRowAction rowActions action row_id row =
     (case rowActions of
        None \<Rightarrow> None
      | Some acts \<Rightarrow>
          (case find (\<lambda>a. name a = action) (acts row) of
             None \<Rightarrow> None
           | Some actionConfig \<Rightarrow>
               (case onClick actionConfig of
                  OnClickFunction f \<Rightarrow> Some (CallFunction f row action)
                | OnClickValue v \<Rightarrow>
                    (if truthy v
                     then (case v of JStr code \<Rightarrow> Some (NewFunction code) | _ \<Rightarrow> None)
                     else None))))"

subsection \<open>Selection and paging\<close>

text \<open>
  The table's \<open>state\<close> object, and of the instance what the selection and paging methods
  read: whether the constructor found its container (when it did not, it returned before
  \<open>init()\<close> and \<open>this.container\<close> is \<open>null\<close>), the \<open>rowId\<close> column of a row, and whether
  \<open>options.onSelectionChange\<close> is set. \<open>selectedIds\<close> is a JavaScript \<open>Set\<close>: its elements
  in insertion order, none twice. The DOM writes of the methods (checkboxes, row classes,
  the table body) are not read back by them and are left out; each call of
  \<open>onSelectionChange\<close> is recorded with its argument. The callbacks of the options are
  taken not to call back into the table.
\<close>

record 'row tableState =
  data :: "'row list"
  page :: int
  pageSize :: int
  total :: int
  sortColumn :: "string option"
  sortDirection :: "string option"
  selectedIds :: "int list"
  filters :: "(string \<times> jsval) list"
  loading :: bool

record 'row dataTable =
  container :: bool
  rowId :: "'row \<Rightarrow> int"
  onSelectionChange :: bool
  state :: "'row tableState"
  selectionChanges :: "int list list"

text \<open>A method either returns or throws; either way the table is left in some state.\<close>

datatype 'a outcome = Returned 'a | Threw 'a

fun tableOf :: "'a outcome \<Rightarrow> 'a" where
  "tableOf (Returned t) = t"
| "tableOf (Threw t) = t"

definition set_add :: "int \<Rightarrow> int list \<Rightarrow> int list" where
  "set_add x xs = (if x \<in> set xs then xs else xs @ [x])"

definition set_delete :: "int \<Rightarrow> int list \<Rightarrow> int list" where
  "set_delete x xs = removeAll x xs"

text \<open>
  \<^verbatim>\<open>
  updateRowSelection() {
      this.container.querySelectorAll('.row-checkbox').forEach(...);   // TypeError on null
      this.tbody.querySelectorAll('tr').forEach(...);
      if (this.selectAllCheckbox) { ... }
      if (this.options.onSelectionChange) {
          this.options.onSelectionChange(Array.from(this.state.selectedIds));
      }
  }
  \<close>
\<close>

definition updateRowSelection :: "'row dataTable \<Rightarrow> 'row dataTable outcome" where
  "updateRowSelection t =
     (if \<not> container t then Threw t
      else if onSelectionChange t
      then Returned (t\<lparr>selectionChanges := selectionChanges t @ [selectedIds (state t)]\<rparr>)
      else Returned t)"

text \<open>
  \<^verbatim>\<open>
  toggleRow(id) {
      if (this.state.selectedIds.has(id)) { this.state.selectedIds.delete(id); }
      else { this.state.selectedIds.add(id); }
      this.updateRowSelection();
  }
  selectAll() {
      this.state.data.forEach(row => { this.state.selectedIds.add(row[this.options.rowId]); });
      this.updateRowSelection();
  }
  clearSelection() {
      this.state.selectedIds.clear();
      this.updateRowSelection();
  }
  \<close>
\<close>

definition toggleRow :: "int \<Rightarrow> 'row dataTable \<Rightarrow> 'row dataTable outcome" where
  "toggleRow i t =
     updateRowSelection
       (t\<lparr>state := (state t)\<lparr>selectedIds :=
            (if i \<in> set (selectedIds (state t)) then set_delete i (selectedIds (state t))
             else set_add i (selectedIds (state t)))\<rparr>\<rparr>)"

definition selectAll :: "'row dataTable \<Rightarrow> 'row dataTable outcome" where
  "selectAll t =
     updateRowSelection
       (t\<lparr>state := (state t)\<lparr>selectedIds :=
            foldl (\<lambda>ids row. set_add (rowId t row) ids) (selectedIds (state t)) (data (state t))\<rparr>\<rparr>)"

definition clearSelection :: "'row dataTable \<Rightarrow> 'row dataTable outcome" where
  "clearSelection t = updateRowSelection (t\<lparr>state := (state t)\<lparr>selectedIds := []\<rparr>\<rparr>)"

text \<open>
  \<open>loadData\<close> is an \<open>async\<close> function: a call runs it up to its first \<open>await\<close> and returns a
  promise, never throwing to its caller. \<open>loadData_begin\<close> is that first part,
  \<^verbatim>\<open>
      if (this.state.loading) return;
      const scrollTop = this._saveScrollPosition();
      this.state.loading = true;
      this.renderLoading();
      try { ... response = await ... }
  \<close>
  and \<open>loadData_complete\<close> the part that runs when the awaited response has arrived:
  \<^verbatim>\<open>
          if (response.success || response.data) {
              this.state.data = response.data || response.items || [];
              this.state.total = response.total || 0;
              this.renderData(); this.renderPagination(); ...
          } else { this.renderError(response.error || '...'); }
      } catch (error) { ...; this.renderError('...'); }
      finally { this.state.loading = false; }
  \<close>
  The response is either a page of rows with the total, or a failure (an error response or
  a rejected request).
\<close>

datatype 'row loadResponse = Loaded "'row list" int | LoadFailed

definition loadData_begin :: "'row dataTable \<Rightarrow> 'row dataTable" where
  "loadData_begin t =
     (if loading (state t) then t else t\<lparr>state := (state t)\<lparr>loading := True\<rparr>\<rparr>)"

fun loadData_complete :: "'row loadResponse \<Rightarrow> 'row dataTable \<Rightarrow> 'row dataTable" where
  "loadData_complete (Loaded rows n) t =
     t\<lparr>state := (state t)\<lparr>data := rows, total := n, loading := False\<rparr>\<rparr>"
| "loadData_complete LoadFailed t = t\<lparr>state := (state t)\<lparr>loading := False\<rparr>\<rparr>"

text \<open>
  \<^verbatim>\<open>
  goToPage(page) { this.state.page = page; this.clearSelection(); this.loadData(); }
  refresh()      { this.clearSelection(); this.loadData(); }
  getSelectedIds() { return Array.from(this.state.selectedIds); }
  \<close>
\<close>

definition goToPage :: "int \<Rightarrow> 'row dataTable \<Rightarrow> 'row dataTable outcome" where
  "goToPage p t =
     (case clearSelection (t\<lparr>state := (state t)\<lparr>page := p\<rparr>\<rparr>) of
        Threw t' \<Rightarrow> Threw t'
      | Returned t' \<Rightarrow> Returned (loadData_begin t'))"

definition refresh :: "'row dataTable \<Rightarrow> 'row dataTable outcome" where
  "refresh t =
     (case clearSelection t of
        Threw t' \<Rightarrow> Threw t'
      | Returned t' \<Rightarrow> Returned (loadData_begin t'))"

definition getSelectedIds :: "'row dataTable \<Rightarrow> int list" where
  "getSelectedIds t = selectedIds (state t)"

section \<open>Dashboard (\<open>loadSchedulerStatus\<close>, dashboard.js)\<close>

text \<open>
  \<^verbatim>\<open>
  async function loadSchedulerStatus() {
      try {
          const response = await App.api.get('/api/scheduler/status');
          const status = response.data;
          const indicator = ...; const statusText = ...; const btnStart = ...; const btnStop = ...;
          if (status.is_running) {
              indicator.className = 'status-indicator status-running';
              statusText.textContent = `Running (${status.enabled_feeds_count} feeds scheduled)`;
              btnStart.style.display = 'none';
              btnStop.style.display = 'inline-block';
          } else {
              indicator.className = 'status-indicator status-stopped';
              statusText.textContent = `Stopped (${status.enabled_feeds_count} feeds enabled)`;
              btnStart.style.display = 'inline-block';
              btnStop.style.display = 'none';
          }
          return status;
      } catch (error) {
          console.error('Failed to load scheduler status:', error);
          document.getElementById('scheduler-status-text').textContent = 'Error loading status';
      }
  }
  \<close>
  The four elements of the page are the record \<open>schedulerUI\<close> (they exist on the dashboard).
  The awaited request resolves with the parsed JSON body or rejects. Reading a property of
  \<open>undefined\<close> or \<open>null\<close> throws into the \<open>catch\<close>; this can only happen at \<open>response.data\<close>
  and at \<open>status.is_running\<close>, before any element is written.
\<close>

record schedulerUI =
  indicatorClass :: string
  statusText :: string
  btnStartDisplay :: string
  btnStopDisplay :: string

datatype 'a awaited = Resolved 'a | Rejected

definition statusError :: "schedulerUI \<Rightarrow> schedulerUI \<times> jsval" where
  "statusError ui = (ui\<lparr>statusText := ''Error loading status''\<rparr>, JUndefined)"

definition loadSchedulerStatus :: "jsval awaited \<Rightarrow> schedulerUI \<Rightarrow> schedulerUI \<times> jsval" where
  "loadSchedulerStatus awaitedResponse ui =
     (case awaitedResponse of
        Rejected \<Rightarrow> statusError ui
      | Resolved response \<Rightarrow>
          (case getProp response ''data'' of
             None \<Rightarrow> statusError ui
           | Some status \<Rightarrow>
               (case getProp status ''is_running'' of
                  None \<Rightarrow> statusError ui
                | Some is_running \<Rightarrow>
                    (case getProp status ''enabled_feeds_count'' of
                       None \<Rightarrow> statusError ui
                     | Some enabled_feeds_count \<Rightarrow>
                         (if truthy is_running
                          then (ui\<lparr>indicatorClass := ''status-indicator status-running'',
                                   statusText := ''Running ('' @ toStringJS enabled_feeds_count @ '' feeds scheduled)'',
                                   btnStartDisplay := ''none'',
                                   btnStopDisplay := ''inline-block''\<rparr>, status)
                          else (ui\<lparr>indicatorClass := ''status-indicator status-stopped'',
                                   statusText := ''Stopped ('' @ toStringJS enabled_feeds_count @ '' feeds enabled)'',
                                   btnStartDisplay := ''inline-block'',
                                   btnStopDisplay := ''none''\<rparr>, status))))))"

section \<open>The ingestion core, from the specification\<close>

text \<open>
  The fetcher, deduplicator, filter engine and scheduler run on the server
  (\<open>deduplicator.py\<close>, \<open>filter_engine.py\<close>, \<open>scheduler.py\<close> in the README's layout); the
  files at hand are the web client and the README. The definitions of this section follow
  the specification's sections 3, 4 and 7.
\<close>

subsection \<open>Data model\<close>

text \<open>Modelled from the spec: the validator tokens of a Source (section 3, "ETag/Last-Modified
  equivalents"); the server's model of a feed is missing.\<close>

record validatorTokens =
  etag :: "string option"
  lastModified :: "string option"

text \<open>Modelled from the spec: the Source of section 3; the server's feed model is missing.
  Times are minutes since the epoch, so that \<open>lastFetched + intervalMinutes\<close> is a time.\<close>

record source =
  sourceId :: nat
  originUrl :: string
  enabled :: bool
  intervalMinutes :: int
  maxEntriesPerCycle :: nat
  recentOnly :: bool
  lastFetched :: int
  tokens :: validatorTokens
  consecutiveErrorCount :: nat

text \<open>Modelled from the spec: the CandidateEntry of section 3; the server's parser is
  missing.\<close>

record candidateEntry =
  link :: string
  title :: string
  content :: string
  published :: int
  language :: string
  tags :: "string list"

subsection \<open>Scheduler: due times\<close>

text \<open>Modelled from the spec: the default of \<open>minIntervalMinutes\<close>; \<open>scheduler.py\<close> and the
  configuration loader are missing, the README documents \<open>MIND_SCHEDULER_MIN_INTERVAL\<close> with
  the default 15.\<close>

definition defaultMinIntervalMinutes :: int where
  "defaultMinIntervalMinutes = 15"

text \<open>Modelled from the spec: the per-source interval floored by the global minimum
  (section 3, "fetch-interval (minutes, floor-clamped to a global minimum)"); \<open>scheduler.py\<close>
  is missing.\<close>

definition effectiveIntervalMinutes :: "int \<Rightarrow> source \<Rightarrow> int" where
  "effectiveIntervalMinutes globalMinIntervalMinutes s = max (intervalMinutes s) globalMinIntervalMinutes"

text \<open>Modelled from the spec: the next-due time of section 4.5,
  \<open>lastFetched + max(source.intervalMinutes, globalMinIntervalMinutes)\<close>; \<open>scheduler.py\<close> is
  missing.\<close>

definition nextDue :: "int \<Rightarrow> source \<Rightarrow> int" where
  "nextDue globalMinIntervalMinutes s = lastFetched s + effectiveIntervalMinutes globalMinIntervalMinutes s"

text \<open>Modelled from the spec: "a Source is due when the current time \<open>\<ge>\<close> next-due" (section
  4.5); \<open>scheduler.py\<close> is missing.\<close>

definition isDue :: "int \<Rightarrow> int \<Rightarrow> source \<Rightarrow> bool" where
  "isDue globalMinIntervalMinutes now s = (nextDue globalMinIntervalMinutes s \<le> now)"

text \<open>Modelled from the spec: the periodic scan of section 4.5, which enqueues a cycle for
  each enabled source that is due; \<open>scheduler.py\<close> is missing.\<close>

definition dueSources :: "int \<Rightarrow> int \<Rightarrow> source list \<Rightarrow> source list" where
  "dueSources globalMinIntervalMinutes now srcs =
     filter (\<lambda>s. enabled s \<and> isDue globalMinIntervalMinutes now s) srcs"

subsection \<open>Filter engine\<close>

text \<open>Modelled from the spec: the kinds and match modes of a FilterRule (section 3);
  \<open>filter_engine.py\<close> and the rule model are missing.\<close>

datatype ruleKind = Keyword | Regex | Tag | Language

datatype matchMode = Include | Exclude

text \<open>Modelled from the spec: the FilterRule of section 3; the server's rule model is missing.
  The position of a rule in the list of rules is its declaration order.\<close>

record filterRule =
  kind :: ruleKind
  mode :: matchMode
  pattern :: string
  priority :: int
  ruleEnabled :: bool

text \<open>Modelled from the spec: substring match of a keyword (section 4.4,
  "keyword: substring/token match against title+content"); \<open>filter_engine.py\<close> is missing.\<close>

fun isSubstring :: "string \<Rightarrow> string \<Rightarrow> bool" where
  "isSubstring p [] = (p = [])"
| "isSubstring p (c # cs) = (take (length p) (c # cs) = p \<or> isSubstring p cs)"

text \<open>Modelled from the spec: how a rule's pattern is matched against the entry, by kind
  (section 4.4); \<open>filter_engine.py\<close> is missing. The regular expression engine is the
  parameter \<open>regexTest\<close>, \<open>None\<close> when the pattern does not compile; the result \<open>None\<close> is
  the rule "treated as disabled for that cycle".\<close>

definition ruleMatches :: "(string \<Rightarrow> string \<Rightarrow> bool option) \<Rightarrow> filterRule \<Rightarrow> candidateEntry \<Rightarrow> bool option" where
  "ruleMatches regexTest r e =
     (case kind r of
        Keyword \<Rightarrow> Some (isSubstring (pattern r) (title e @ content e))
      | Regex \<Rightarrow> regexTest (pattern r) (title e @ content e)
      | Tag \<Rightarrow> Some (pattern r \<in> set (tags e))
      | Language \<Rightarrow> Some (pattern r = language e))"

text \<open>Modelled from the spec: the order of evaluation, "priority order (descending), ties
  broken by declaration order" (section 4.4): a stable sort of the declared rules by
  descending priority; \<open>filter_engine.py\<close> is missing.\<close>

definition evaluationOrder :: "filterRule list \<Rightarrow> filterRule list" where
  "evaluationOrder rules = sort_key (\<lambda>r. - priority r) rules"

text \<open>Modelled from the spec: the scan for the first matching enabled rule (section 4.4,
  "first matching enabled rule wins"); a rule that is disabled, does not match or does not
  compile is passed over; \<open>filter_engine.py\<close> is missing.\<close>

fun firstMatch :: "(filterRule \<Rightarrow> 'e \<Rightarrow> bool option) \<Rightarrow> 'e \<Rightarrow> filterRule list \<Rightarrow> filterRule option" where
  "firstMatch matches e [] = None"
| "firstMatch matches e (r # rs) =
     (if ruleEnabled r \<and> matches r e = Some True then Some r else firstMatch matches e rs)"

text \<open>Modelled from the spec: \<open>accepts(entry, rules)\<close> of section 4.4: an exclude rule that wins
  rejects, an include rule that wins accepts, and the entry is accepted when no rule
  matches; \<open>filter_engine.py\<close> is missing.\<close>

definition accepts :: "(filterRule \<Rightarrow> 'e \<Rightarrow> bool option) \<Rightarrow> 'e \<Rightarrow> filterRule list \<Rightarrow> bool" where
  "accepts matches e rules =
     (case firstMatch matches e (evaluationOrder rules) of
        None \<Rightarrow> True
      | Some r \<Rightarrow> (case mode r of Include \<Rightarrow> True | Exclude \<Rightarrow> False))"

subsection \<open>Deduplicator\<close>

text \<open>Modelled from the spec: the three strategies of section 4.3; \<open>deduplicator.py\<close> is
  missing.\<close>

datatype dedupStrategy = Strict | Medium | Relaxed

text \<open>Modelled from the spec: the signatures of an entry (glossary: canonical link, normalized
  title, content hash), and the normalized content that the relaxed strategy compares with
  "any previously seen content for the source"; \<open>deduplicator.py\<close> is missing.\<close>

datatype signature =
    LinkSignature string
  | TitleSignature string
  | HashSignature string
  | ContentSignature string

text \<open>Modelled from the spec: the normalisations, the hash and the similarity score of section
  4.3, which the specification leaves to the implementer ("the exact algorithm is a tunable
  implementation choice"); they are parameters; \<open>deduplicator.py\<close> is missing.\<close>

record dedupOps =
  canonicalLink :: "string \<Rightarrow> string"
  normalizeTitle :: "string \<Rightarrow> string"
  normalizeContent :: "string \<Rightarrow> string"
  contentHash :: "string \<Rightarrow> string"
  similarity :: "string \<Rightarrow> string \<Rightarrow> real"

text \<open>Modelled from the spec: \<open>signaturesFor(candidate)\<close> of section 4.3; \<open>deduplicator.py\<close> is
  missing.\<close>

definition signaturesFor :: "dedupOps \<Rightarrow> candidateEntry \<Rightarrow> signature list" where
  "signaturesFor ops e =
     [LinkSignature (canonicalLink ops (link e)),
      TitleSignature (normalizeTitle ops (title e)),
      HashSignature (contentHash ops (normalizeContent ops (content e))),
      ContentSignature (normalizeContent ops (content e))]"

text \<open>Modelled from the spec: the strict check, "the canonical link exactly matches a
  previously seen link"; \<open>deduplicator.py\<close> is missing.\<close>

definition linkSeen :: "dedupOps \<Rightarrow> candidateEntry \<Rightarrow> signature list \<Rightarrow> bool" where
  "linkSeen ops e known = (LinkSignature (canonicalLink ops (link e)) \<in> set known)"

text \<open>Modelled from the spec: "the normalized title matches a previously seen title for the
  same source"; \<open>deduplicator.py\<close> is missing.\<close>

definition titleSeen :: "dedupOps \<Rightarrow> candidateEntry \<Rightarrow> signature list \<Rightarrow> bool" where
  "titleSeen ops e known = (TitleSignature (normalizeTitle ops (title e)) \<in> set known)"

text \<open>Modelled from the spec: "a content hash (stable hash over normalized body text)
  matches"; \<open>deduplicator.py\<close> is missing.\<close>

definition hashSeen :: "dedupOps \<Rightarrow> candidateEntry \<Rightarrow> signature list \<Rightarrow> bool" where
  "hashSeen ops e known =
     (HashSignature (contentHash ops (normalizeContent ops (content e))) \<in> set known)"

text \<open>Modelled from the spec: the similarity check of the relaxed strategy against every
  previously seen content of the source; \<open>deduplicator.py\<close> is missing. Section 4.3 words
  the test as the score "exceeds" the threshold, the testable property of section 8 as
  "similarity \<open>\<ge>\<close> threshold"; the two differ only where the score equals the threshold, and
  the testable property is the one taken.\<close>

fun similarSeen :: "dedupOps \<Rightarrow> real \<Rightarrow> candidateEntry \<Rightarrow> signature list \<Rightarrow> bool" where
  "similarSeen ops threshold e [] = False"
| "similarSeen ops threshold e (ContentSignature c # known) =
     (threshold \<le> similarity ops (normalizeContent ops (content e)) c
      \<or> similarSeen ops threshold e known)"
| "similarSeen ops threshold e (_ # known) = similarSeen ops threshold e known"

text \<open>Modelled from the spec: the recognised options of section 6 that the deduplicator reads;
  the configuration loader is missing.\<close>

record dedupConfig =
  dedupStrategy :: dedupStrategy
  similarityThreshold :: real

text \<open>Modelled from the spec: \<open>isDuplicate(source, candidate, knownSignatures)\<close> of section 4.3,
  the checks in the order link, title, content hash, similarity; \<open>knownSignatures\<close> is the
  known set of the candidate's own source; \<open>deduplicator.py\<close> is missing.\<close>

definition isDuplicate :: "dedupOps \<Rightarrow> dedupConfig \<Rightarrow> source \<Rightarrow> candidateEntry \<Rightarrow> signature list \<Rightarrow> bool" where
  "isDuplicate ops cfg src e knownSignatures =
     (case dedupStrategy cfg of
        Strict \<Rightarrow> linkSeen ops e knownSignatures
      | Medium \<Rightarrow>
          linkSeen ops e knownSignatures \<or> titleSeen ops e knownSignatures
          \<or> hashSeen ops e knownSignatures
      | Relaxed \<Rightarrow>
          linkSeen ops e knownSignatures \<or> titleSeen ops e knownSignatures
          \<or> hashSeen ops e knownSignatures
          \<or> similarSeen ops (similarityThreshold cfg) e knownSignatures)"

text \<open>Modelled from the spec: the known signatures of the persistence contract
  (\<open>knownSignatures(sourceId)\<close>, section 6), scoped per source, and the commit of an entry's
  signatures to its source's set; the repository layer is missing.\<close>

definition commitSignatures ::
  "dedupOps \<Rightarrow> source \<Rightarrow> candidateEntry \<Rightarrow> (nat \<Rightarrow> signature list) \<Rightarrow> (nat \<Rightarrow> signature list)" where
  "commitSignatures ops src e known = known(sourceId src := signaturesFor ops e @ known (sourceId src))"

subsection \<open>Fetch cycle\<close>

text \<open>Modelled from the spec: the contract of the fetcher, \<open>fetch(source) -> RawPayload |
  NotModified | Error\<close> (section 4.1); a payload comes with the updated validator tokens;
  the server's fetcher is missing.\<close>

datatype 'p fetchOutcome = RawPayload 'p validatorTokens | NotModified | FetchError

text \<open>Modelled from the spec: the FetchCycleResult of section 3 with the counts the scenarios of
  section 8 name; the server's cycle is missing.\<close>

record fetchCycleResult =
  fetched :: nat
  new :: nat
  duplicate :: nat
  filteredOut :: nat
  errors :: nat

text \<open>Modelled from the spec: the result of a cycle that processed nothing.\<close>

definition emptyResult :: fetchCycleResult where
  "emptyResult = \<lparr>fetched = 0, new = 0, duplicate = 0, filteredOut = 0, errors = 0\<rparr>"

text \<open>Modelled from the spec: the collaborators of one cycle: the fetcher, the parser
  (\<open>None\<close> is MalformedPayload), the persistence layer's \<open>appendEntries\<close> (\<open>None\<close> is a
  persistence error), the rule matcher and the deduplicator's parameters; all of them are
  missing from the files at hand.\<close>

record 'p pipeline =
  fetch :: "source \<Rightarrow> 'p fetchOutcome"
  parse :: "source \<Rightarrow> 'p \<Rightarrow> candidateEntry list option"
  appendEntries :: "nat \<Rightarrow> candidateEntry list \<Rightarrow> nat option"
  matcher :: "filterRule \<Rightarrow> candidateEntry \<Rightarrow> bool option"
  operations :: dedupOps
  settings :: dedupConfig

text \<open>Modelled from the spec: the stages Dedup and Filter over the parsed entries, in the
  origin's order (sections 4.3, 4.4, 5): a duplicate is counted and dropped; an entry the
  rules reject is counted and its signatures are not committed; an entry that survives is
  kept and its signatures join the known set. The result is the kept entries, the
  duplicate count, the filtered-out count and the new known set. The server's cycle is
  missing.\<close>

fun dedupAndFilter ::
  "'p pipeline \<Rightarrow> filterRule list \<Rightarrow> source \<Rightarrow> candidateEntry list \<Rightarrow> signature list
   \<Rightarrow> candidateEntry list \<times> nat \<times> nat \<times> signature list" where
  "dedupAndFilter pl rules src [] known = ([], 0, 0, known)"
| "dedupAndFilter pl rules src (e # es) known =
     (if isDuplicate (operations pl) (settings pl) src e known
      then (case dedupAndFilter pl rules src es known of
              (kept, d, f, known') \<Rightarrow> (kept, Suc d, f, known'))
      else if \<not> accepts (matcher pl) e rules
      then (case dedupAndFilter pl rules src es known of
              (kept, d, f, known') \<Rightarrow> (kept, d, Suc f, known'))
      else (case dedupAndFilter pl rules src es (signaturesFor (operations pl) e @ known) of
              (kept, d, f, known') \<Rightarrow> (e # kept, d, f, known')))"

text \<open>Modelled from the spec: the source after a cycle that the fetcher or the parser
  failed: "on cycle completion (success or error), the Source's \<open>lastFetched\<close> and
  \<open>consecutiveErrorCount\<close> are updated: ... failure increments it" (section 4.5); the
  validator tokens stay. The server's cycle is missing.\<close>

definition cycleFailed :: "int \<Rightarrow> source \<Rightarrow> fetchCycleResult \<times> source" where
  "cycleFailed now src =
     (emptyResult\<lparr>errors := 1\<rparr>,
      src\<lparr>lastFetched := now, consecutiveErrorCount := Suc (consecutiveErrorCount src)\<rparr>)"

text \<open>Modelled from the spec: the source after a persistence error, which "aborts the cycle
  before the Source's \<open>lastFetched\<close>/validator tokens are updated" (section 7); the failure
  is counted. The server's cycle is missing.\<close>

definition persistFailed :: "source \<Rightarrow> fetchCycleResult \<times> source" where
  "persistFailed src =
     (emptyResult\<lparr>errors := 1\<rparr>, src\<lparr>consecutiveErrorCount := Suc (consecutiveErrorCount src)\<rparr>)"

text \<open>Modelled from the spec: one fetch cycle, Fetch, Parse, Dedup, Filter, Persist (sections
  4.1, 4.5, 5, 7), returning the FetchCycleResult, the updated source and the source's new
  known signatures. Not-modified short-circuits as a success with nothing processed:
  \<open>lastFetched\<close> is set to the current time, the error count is reset as for any success,
  the validator tokens are kept. A success with a payload also stores the tokens the
  fetcher returned. The server's cycle is missing.\<close>

definition fetchCycle ::
  "'p pipeline \<Rightarrow> filterRule list \<Rightarrow> int \<Rightarrow> source \<Rightarrow> signature list
   \<Rightarrow> (fetchCycleResult \<times> source) \<times> signature list" where
  "fetchCycle pl rules now src known =
     (case fetch pl src of
        NotModified \<Rightarrow>
          ((emptyResult, src\<lparr>lastFetched := now, consecutiveErrorCount := 0\<rparr>), known)
      | FetchError \<Rightarrow> (cycleFailed now src, known)
      | RawPayload payload newTokens \<Rightarrow>
          (case parse pl src payload of
             None \<Rightarrow> (cycleFailed now src, known)
           | Some entries \<Rightarrow>
               (case dedupAndFilter pl rules src entries known of
                  (kept, d, f, known') \<Rightarrow>
                    (case appendEntries pl (sourceId src) kept of
                       None \<Rightarrow> (persistFailed src, known)
                     | Some inserted \<Rightarrow>
                         ((\<lparr>fetched = length entries, new = length kept, duplicate = d,
                            filteredOut = f, errors = 0\<rparr>,
                           src\<lparr>lastFetched := now, tokens := newTokens,
                               consecutiveErrorCount := 0\<rparr>),
                          known')))))"

section \<open>Sample data\<close>

text \<open>
  Concrete values at which the properties below are instantiated: a source configured with
  the smallest interval the feed form permits (\<open>min="10"\<close> in \<open>showAddFeedModal\<close>), the
  deduplicator's parameters in a simple form (the canonical link drops the query string,
  the other normalisations are the identity, two different texts score 0.9), a pipeline
  whose fetcher reports not-modified, and four entries.
\<close>

definition sampleSource :: source where
  "sampleSource =
     \<lparr>sourceId = 1, originUrl = ''http://example.org/feed.xml'', enabled = True,
      intervalMinutes = 10, maxEntriesPerCycle = 0, recentOnly = False, lastFetched = 1000,
      tokens = \<lparr>etag = Some ''abc'', lastModified = None\<rparr>, consecutiveErrorCount = 2\<rparr>"

definition sampleOps :: dedupOps where
  "sampleOps =
     \<lparr>canonicalLink = takeWhile (\<lambda>c. c \<noteq> CHR ''?''),
      normalizeTitle = (\<lambda>t. t),
      normalizeContent = (\<lambda>c. c),
      contentHash = (\<lambda>c. c),
      similarity = (\<lambda>x y. if x = y then 1 else 9 / 10)\<rparr>"

definition samplePipeline :: "string pipeline" where
  "samplePipeline =
     \<lparr>fetch = (\<lambda>s. NotModified),
      parse = (\<lambda>s p. None),
      appendEntries = (\<lambda>i es. Some (length es)),
      matcher = ruleMatches (\<lambda>p t. None),
      operations = sampleOps,
      settings = \<lparr>dedupStrategy = Medium, similarityThreshold = 85 / 100\<rparr>\<rparr>"

definition seenEntry :: candidateEntry where
  "seenEntry =
     \<lparr>link = ''http://example.org/a'', title = ''First title'', content = ''alpha beta gamma'',
      published = 0, language = ''en'', tags = []\<rparr>"

definition sameLinkEntry :: candidateEntry where
  "sameLinkEntry =
     \<lparr>link = ''http://example.org/a?utm_source=rss'', title = ''Second title'', content = ''delta'',
      published = 0, language = ''en'', tags = []\<rparr>"

definition sameTitleEntry :: candidateEntry where
  "sameTitleEntry =
     \<lparr>link = ''http://example.org/b'', title = ''First title'', content = ''epsilon'',
      published = 0, language = ''en'', tags = []\<rparr>"

definition similarEntry :: candidateEntry where
  "similarEntry =
     \<lparr>link = ''http://example.org/c'', title = ''Third title'', content = ''alpha beta gamma delta'',
      published = 0, language = ''en'', tags = []\<rparr>"

definition spamNewsEntry :: candidateEntry where
  "spamNewsEntry =
     \<lparr>link = ''http://example.org/d'', title = ''spam in the news'', content = ''some news'',
      published = 0, language = ''en'', tags = []\<rparr>"

definition excludeSpam :: filterRule where
  "excludeSpam = \<lparr>kind = Keyword, mode = Exclude, pattern = ''spam'', priority = 10, ruleEnabled = True\<rparr>"

definition includeNews :: filterRule where
  "includeNews = \<lparr>kind = Keyword, mode = Include, pattern = ''news'', priority = 5, ruleEnabled = True\<rparr>"

text \<open>
  A table of three rows (a row is its id here) on page 1 of 45 rows, with an
  \<open>onSelectionChange\<close> callback, and the row actions of a feed list: \<open>visit\<close> bound to a
  function, \<open>delete\<close> bound to a string.
\<close>

definition sampleTable :: "int dataTable" where
  "sampleTable =
     \<lparr>container = True, rowId = (\<lambda>r. r), onSelectionChange = True,
      state = \<lparr>data = [1, 2, 3], page = 1, pageSize = 20, total = 45, sortColumn = None,
               sortDirection = None, selectedIds = [], filters = [], loading = False\<rparr>,
      selectionChanges = []\<rparr>"

definition sampleRowActions :: "jsval \<Rightarrow> nat rowAction list" where
  "sampleRowActions row =
     [\<lparr>name = ''visit'', onClick = OnClickFunction 0\<rparr>,
      \<lparr>name = ''delete'', onClick = OnClickValue (JStr ''deleteFeed(1)'')\<rparr>]"

section \<open>Properties of the date utilities\<close>

lemma altColon_iff:
  "altColon d \<longleftrightarrow> (length d = 6 \<and> isSign (d ! 0) \<and> isDigit (d ! 1) \<and> isDigit (d ! 2)
           \<and> d ! 3 = CHR '':'' \<and> isDigit (d ! 4) \<and> isDigit (d ! 5))"
  by (induction d rule: altColon.induct) simp_all

lemma altCompact_iff:
  "altCompact d \<longleftrightarrow> (length d = 5 \<and> isSign (d ! 0) \<and> isDigit (d ! 1) \<and> isDigit (d ! 2)
           \<and> isDigit (d ! 3) \<and> isDigit (d ! 4))"
  by (induction d rule: altCompact.induct) simp_all

lemma tzAt_iff_tzDesignator: "tzAt d \<longleftrightarrow> tzDesignator d \<or> d = ''z''"
  unfolding tzAt_def tzDesignator_def altZ_def altColon_iff altCompact_iff by blast

lemma hasTimezone_suffix: "hasTimezone s \<longleftrightarrow> (\<exists>p d. s = p @ d \<and> tzAt d)"
proof (induction s)
  case Nil
  show ?case by simp
next
  case (Cons c cs)
  have "(\<exists>p d. c # cs = p @ d \<and> tzAt d) \<longleftrightarrow> tzAt (c # cs) \<or> (\<exists>p d. cs = p @ d \<and> tzAt d)"
    by (auto simp: Cons_eq_append_conv)
  with Cons show ?case by simp
qed

lemma endsWithLowerZ_iff: "endsWithLowerZ s \<longleftrightarrow> (\<exists>p. s = p @ ''z'')"
proof
  assume "endsWithLowerZ s"
  then have "s = butlast s @ ''z''"
    by (metis endsWithLowerZ_def append_butlast_last_id)
  then show "\<exists>p. s = p @ ''z''" ..
next
  assume "\<exists>p. s = p @ ''z''"
  then show "endsWithLowerZ s" by (auto simp: endsWithLowerZ_def)
qed

lemma hasTimezone_iff: "hasTimezone s \<longleftrightarrow> endsWithTzDesignator s \<or> endsWithLowerZ s"
  unfolding hasTimezone_suffix endsWithTzDesignator_def endsWithLowerZ_iff tzAt_iff_tzDesignator
  by blast

text \<open>Every designator ends with \<open>Z\<close> or with a digit.\<close>

lemma tzDesignator_last: "tzDesignator d \<Longrightarrow> d \<noteq> [] \<and> (last d = CHR ''Z'' \<or> isDigit (last d))"
proof -
  assume "tzDesignator d"
  then consider "d = ''Z''" | "length d = 6 \<and> isDigit (d ! 5)" | "length d = 5 \<and> isDigit (d ! 4)"
    unfolding tzDesignator_def by blast
  then show ?thesis
  proof cases
    case 1
    then show ?thesis by simp
  next
    case 2
    then have "d \<noteq> []" by auto
    with 2 show ?thesis by (simp add: last_conv_nth)
  next
    case 3
    then have "d \<noteq> []" by auto
    with 3 show ?thesis by (simp add: last_conv_nth)
  qed
qed

lemma endsWithTzDesignator_last:
  "endsWithTzDesignator s \<Longrightarrow> last s = CHR ''Z'' \<or> isDigit (last s)"
  unfolding endsWithTzDesignator_def using tzDesignator_last by fastforce

text \<open>The last five characters of a year-last date have the shape \<open>-HHMM\<close>.\<close>

lemma isYearLastDate_designated: "isYearLastDate s \<Longrightarrow> endsWithTzDesignator s"
proof -
  assume y: "isYearLastDate s"
  then have "tzDesignator (drop 5 s)"
    by (simp add: isYearLastDate_def tzDesignator_def isSign_def)
  moreover have "s = take 5 s @ drop 5 s" by simp
  ultimately show ?thesis unfolding endsWithTzDesignator_def by blast
qed

text \<open>
  C2, as amended. For every date string (a non-empty string) whose end does not have the
  shape of a timezone designator, the program reads the timestamp as UTC, never as local
  time: \<open>App.normalizeUtcDate\<close> appends \<open>Z\<close> exactly when the string has no trailing
  \<open>Z\<close> or \<open>z\<close>, \<open>+HH:MM\<close>, \<open>-HH:MM\<close>, \<open>+HHMM\<close> or \<open>-HHMM\<close>, and returns a string that ends
  with one of them unchanged; \<open>App.formatDate\<close> then parses the string with the \<open>Z\<close>. The
  test looks at the characters only: a date that ends with a hyphen and a four-digit year
  (\<open>DD-MM-YYYY\<close>) counts as carrying an offset and is returned without a \<open>Z\<close>, although it
  has no timezone information.
\<close>

theorem normalizeUtcDate_appends_Z_unless_designated:
  "normalizeUtcDate s =
     (if s = [] \<or> endsWithTzDesignator s \<or> endsWithLowerZ s then s else s @ ''Z'')
   \<and> (isYearLastDate s \<longrightarrow> endsWithTzDesignator s \<and> normalizeUtcDate s = s)
   \<and> (s \<noteq> [] \<and> \<not> endsWithTzDesignator s \<and> \<not> endsWithLowerZ s \<longrightarrow>
        formatDate dateParse toLocaleString s =
          (case dateParse (s @ ''Z'') of None \<Rightarrow> s | Some t \<Rightarrow> toLocaleString t))"
proof -
  have n: "normalizeUtcDate s =
     (if s = [] \<or> endsWithTzDesignator s \<or> endsWithLowerZ s then s else s @ ''Z'')"
    by (simp add: normalizeUtcDate_def hasTimezone_iff)
  have y: "endsWithTzDesignator s \<and> normalizeUtcDate s = s" if "isYearLastDate s"
    using isYearLastDate_designated [OF that] by (simp add: n)
  have f: "formatDate dateParse toLocaleString s =
          (case dateParse (s @ ''Z'') of None \<Rightarrow> s | Some t \<Rightarrow> toLocaleString t)"
    if "s \<noteq> [] \<and> \<not> endsWithTzDesignator s \<and> \<not> endsWithLowerZ s"
    using that by (simp add: formatDate_def n)
  from n y f show ?thesis by blast
qed

text \<open>
  A naive timestamp of the backend is parsed with the \<open>Z\<close> appended; the last day of 1999,
  written with the year last, is returned as it is.
\<close>

theorem normalizeUtcDate_appends_Z_witness:
  "isYearLastDate ''31-12-1999'' \<and> normalizeUtcDate ''31-12-1999'' = ''31-12-1999''
   \<and> \<not> endsWithTzDesignator ''2025-01-15T10:30:00'' \<and> \<not> endsWithLowerZ ''2025-01-15T10:30:00''
   \<and> normalizeUtcDate ''2025-01-15T10:30:00'' = ''2025-01-15T10:30:00Z''
   \<and> formatDate (\<lambda>s. if s = ''2025-01-15T10:30:00Z'' then Some 1736937000000 else None)
        (\<lambda>t. ''2025/01/15 18:30:00'') ''2025-01-15T10:30:00'' = ''2025/01/15 18:30:00''"
proof -
  have y: "isYearLastDate ''31-12-1999''"
    by (simp add: isYearLastDate_def isDigit_def)
  have "\<not> hasTimezone ''2025-01-15T10:30:00''"
    by (simp add: tzAt_def altZ_def isSign_def isDigit_def)
  then have e: "\<not> endsWithTzDesignator ''2025-01-15T10:30:00''"
    "\<not> endsWithLowerZ ''2025-01-15T10:30:00''"
    by (simp_all add: hasTimezone_iff)
  note yl = normalizeUtcDate_appends_Z_unless_designated [of "''31-12-1999''"]
  note iso = normalizeUtcDate_appends_Z_unless_designated
      [of "''2025-01-15T10:30:00''"
          "\<lambda>s. if s = ''2025-01-15T10:30:00Z'' then Some 1736937000000 else None"
          "\<lambda>t. ''2025/01/15 18:30:00''"]
  have a: "normalizeUtcDate ''31-12-1999'' = ''31-12-1999''"
    using yl y by blast
  have b: "normalizeUtcDate ''2025-01-15T10:30:00'' = ''2025-01-15T10:30:00'' @ ''Z''"
    using conjunct1 [OF iso] e by (simp only: if_False list.simps simp_thms)
  have c: "formatDate (\<lambda>s. if s = ''2025-01-15T10:30:00Z'' then Some 1736937000000 else None)
        (\<lambda>t. ''2025/01/15 18:30:00'') ''2025-01-15T10:30:00'' = ''2025/01/15 18:30:00''"
    using conjunct2 [OF conjunct2 [OF iso]] e by simp
  from y a e b c show ?thesis by simp
qed

text \<open>
  The claim as stated fails at two date strings. \<open>15-01-2025\<close> has no timezone information,
  yet no \<open>Z\<close> is appended, so that it is not read as UTC: its end \<open>-2025\<close> has the shape
  \<open>-HHMM\<close>. And \<open>2025-01-15T10:30:00z\<close> ends with none of \<open>Z\<close>, \<open>+/-HH:MM\<close>, \<open>+/-HHMM\<close>,
  yet no \<open>Z\<close> is appended: the pattern's flag \<open>i\<close> lets \<open>Z\<close> match the \<open>z\<close>.
\<close>

theorem normalizeUtcDate_year_last_and_lower_z_counterexample:
  "isYearLastDate ''15-01-2025''
   \<and> normalizeUtcDate ''15-01-2025'' = ''15-01-2025''
   \<and> \<not> endsWithTzDesignator ''2025-01-15T10:30:00z''
   \<and> normalizeUtcDate ''2025-01-15T10:30:00z'' = ''2025-01-15T10:30:00z''"
proof -
  have a: "isYearLastDate ''15-01-2025''"
    by (simp add: isYearLastDate_def isDigit_def)
  have b: "normalizeUtcDate ''15-01-2025'' = ''15-01-2025''"
    by (simp add: normalizeUtcDate_def tzAt_def altZ_def isSign_def isDigit_def)
  have c: "\<not> endsWithTzDesignator ''2025-01-15T10:30:00z''"
    using endsWithTzDesignator_last [of "''2025-01-15T10:30:00z''"]
    by (auto simp: isDigit_def)
  have d: "normalizeUtcDate ''2025-01-15T10:30:00z'' = ''2025-01-15T10:30:00z''"
    by (simp add: normalizeUtcDate_def tzAt_def altZ_def isSign_def isDigit_def)
  from a b c d show ?thesis by blast
qed

text \<open>
  C8. For every input string whose UTC-normalised form does not parse to a valid date,
  \<open>App.formatDate\<close> returns the input string itself (not the normalised string, and not a
  rendering of the invalid date). The function is total on strings: no operation of it
  throws on a string.
\<close>

theorem formatDate_invalid_returns_input:
  "dateParse (normalizeUtcDate dateStr) = None \<Longrightarrow> formatDate dateParse toLocaleString dateStr = dateStr"
  by (simp add: formatDate_def)

text \<open>An input that is no date, with a parser that knows one timestamp.\<close>

theorem formatDate_invalid_returns_input_witness:
  "(\<lambda>s. if s = ''2025-01-15T10:30:00Z'' then Some (1736937000000 :: int) else None)
      (normalizeUtcDate ''not a date'') = None
   \<and> formatDate (\<lambda>s. if s = ''2025-01-15T10:30:00Z'' then Some 1736937000000 else None)
        (\<lambda>t. ''2025/01/15 18:30:00'') ''not a date'' = ''not a date''"
proof -
  have n: "normalizeUtcDate ''not a date'' = ''not a dateZ''"
    by (simp add: normalizeUtcDate_def tzAt_def altZ_def isSign_def isDigit_def)
  show ?thesis
    using formatDate_invalid_returns_input
      [of "\<lambda>s. if s = ''2025-01-15T10:30:00Z'' then Some 1736937000000 else None"
          "''not a date''" "\<lambda>t. ''2025/01/15 18:30:00''"]
    by (simp add: n)
qed

section \<open>Properties of the API client\<close>

lemma forEach_key_appends:
  "forEach_key params u keys =
     u\<lparr>searchParams := searchParams u @
        map (\<lambda>k. (k, toStringJS (objGet params k)))
          (filter (\<lambda>k. objGet params k \<noteq> JNull \<and> objGet params k \<noteq> JUndefined) keys)\<rparr>"
  by (induction keys arbitrary: u) (auto simp: searchParams_append_def)

text \<open>
  C9. For every path and parameter object, \<open>API.buildURL\<close> returns the serialisation of the
  URL of the path with one query parameter appended, in the order of \<open>Object.keys\<close>, for
  exactly those keys whose values are neither \<open>null\<close> nor \<open>undefined\<close>; a key bound to
  \<open>null\<close> or \<open>undefined\<close> adds nothing (in particular not the strings \<open>null\<close> or
  \<open>undefined\<close>). When \<open>new URL\<close> throws, so does \<open>buildURL\<close>.
\<close>

theorem buildURL_omits_null_and_undefined:
  "buildURL newURL urlToString path params =
     map_option
       (\<lambda>u. urlToString
          (u\<lparr>searchParams := searchParams u @
               map (\<lambda>k. (k, toStringJS (objGet params k)))
                 (filter (\<lambda>k. objGet params k \<noteq> JNull \<and> objGet params k \<noteq> JUndefined)
                    (Object_keys params))\<rparr>))
       (newURL path)"
  by (simp add: buildURL_def buildURL_object_def forEach_key_appends split: option.splits)

text \<open>A request for a page of feeds with no search term and no category.\<close>

theorem buildURL_omits_null_and_undefined_witness:
  "buildURL (\<lambda>p. Some \<lparr>locator = ''http://127.0.0.1:8000'' @ p, searchParams = [], fragment = []\<rparr>)
     plainToString ''/api/feeds''
     [(''page'', JNum 2), (''search'', JNull), (''page_size'', JNum 20), (''category'', JUndefined)]
   = Some ''http://127.0.0.1:8000/api/feeds?page=2&page_size=20''"
  unfolding buildURL_omits_null_and_undefined
  by (simp add: Object_keys_def objGet_def plainToString_def string_of_int_def digitChar_def)

section \<open>Properties of the data table\<close>

text \<open>
  C1, as amended. \<open>DataTable.handleRowAction\<close> looks the action up by name in the list that
  \<open>options.rowActions\<close> returns for the row. It calls the action's \<open>onClick\<close> with the row
  and the action name exactly when \<open>onClick\<close> is a function value; and it compiles and runs
  \<open>onClick\<close> as code (\<open>new Function(onClick)()\<close>) exactly when \<open>onClick\<close> is a non-empty
  string. So a string supplied in the table's configuration is executed as code.
\<close>

theorem handleRowAction_dispatch:
  "(handleRowAction acts action row_id row = Some (CallFunction f r a) \<longleftrightarrow>
      (\<exists>g cfg. acts = Some g \<and> find (\<lambda>c. name c = action) (g row) = Some cfg
         \<and> onClick cfg = OnClickFunction f \<and> r = row \<and> a = action))
   \<and> (handleRowAction acts action row_id row = Some (NewFunction code) \<longleftrightarrow>
      (\<exists>g cfg. acts = Some g \<and> find (\<lambda>c. name c = action) (g row) = Some cfg
         \<and> onClick cfg = OnClickValue (JStr code) \<and> code \<noteq> []))"
  by (auto simp: handleRowAction_def split: option.splits onclick.splits jsval.splits if_splits)

text \<open>The action \<open>visit\<close> of the sample row actions is called through its function value.\<close>

theorem handleRowAction_dispatch_witness:
  "handleRowAction (Some sampleRowActions) ''visit'' 1 (JObj [(''id'', JNum 1)])
   = Some (CallFunction 0 (JObj [(''id'', JNum 1)]) ''visit'')"
proof -
  have "find (\<lambda>c. name c = ''visit'') (sampleRowActions (JObj [(''id'', JNum 1)]))
        = Some \<lparr>name = ''visit'', onClick = OnClickFunction 0\<rparr>"
    by (simp add: sampleRowActions_def)
  then show ?thesis
    using conjunct1 [OF handleRowAction_dispatch
        [of "Some sampleRowActions" "''visit''" 1 "JObj [(''id'', JNum 1)]" 0
            "JObj [(''id'', JNum 1)]" "''visit''"]]
    by simp
qed

text \<open>
  The claim as stated fails where an action's \<open>onClick\<close> is a string: the string is executed
  as code.
\<close>

theorem handleRowAction_string_counterexample:
  "handleRowAction (Some sampleRowActions) ''delete'' 1 (JObj [(''id'', JNum 1)])
   = Some (NewFunction ''deleteFeed(1)'')"
  by (simp add: handleRowAction_def sampleRowActions_def)

lemma loadData_begin_selectedIds:
  "selectedIds (state (loadData_begin t)) = selectedIds (state t)"
  by (simp add: loadData_begin_def)

lemma loadData_complete_selectedIds:
  "selectedIds (state (loadData_complete resp t)) = selectedIds (state t)"
  by (cases resp) simp_all

lemma clearSelection_selectedIds:
  "selectedIds (state (tableOf (clearSelection t))) = []"
  by (simp add: clearSelection_def updateRowSelection_def)

lemma goToPage_selectedIds: "selectedIds (state (tableOf (goToPage p t))) = []"
  unfolding goToPage_def
  using clearSelection_selectedIds [of "t\<lparr>state := (state t)\<lparr>page := p\<rparr>\<rparr>"]
  by (auto split: outcome.splits simp: loadData_begin_selectedIds)

lemma refresh_selectedIds: "selectedIds (state (tableOf (refresh t))) = []"
  unfolding refresh_def
  using clearSelection_selectedIds [of t]
  by (auto split: outcome.splits simp: loadData_begin_selectedIds)

text \<open>
  C10. For every table and every target page, \<open>goToPage\<close> and \<open>refresh\<close> clear the set of
  selected rows before they start the reload: right after either call \<open>getSelectedIds()\<close>
  is the empty list (also when the call threw because the table has no container), and it
  still is when the reload has completed, whatever the response.
\<close>

theorem goToPage_refresh_clear_selection:
  "getSelectedIds (tableOf (goToPage p t)) = []
   \<and> getSelectedIds (tableOf (refresh t)) = []
   \<and> getSelectedIds (loadData_complete resp (tableOf (goToPage p t))) = []
   \<and> getSelectedIds (loadData_complete resp (tableOf (refresh t))) = []"
  by (simp add: getSelectedIds_def goToPage_selectedIds refresh_selectedIds
      loadData_complete_selectedIds)

text \<open>All three rows of the sample table are selected, then the table goes to page 2.\<close>

theorem goToPage_refresh_clear_selection_witness:
  "getSelectedIds (tableOf (selectAll sampleTable)) = [1, 2, 3]
   \<and> getSelectedIds (tableOf (goToPage 2 (tableOf (selectAll sampleTable)))) = []
   \<and> getSelectedIds (tableOf (refresh (tableOf (selectAll sampleTable)))) = []"
proof -
  have "getSelectedIds (tableOf (selectAll sampleTable)) = [1, 2, 3]"
    by (simp add: getSelectedIds_def selectAll_def updateRowSelection_def sampleTable_def
        set_add_def)
  then show ?thesis
    using goToPage_refresh_clear_selection [of 2 "tableOf (selectAll sampleTable)"]
    by simp
qed

section \<open>Properties of the dashboard\<close>

text \<open>
  C3, as amended. The consumer of \<open>/api/scheduler/status\<close> reads the scheduler's run state
  from the field \<open>is_running\<close> of the response's \<open>data\<close> object (by its truthiness) and the
  count of scheduled feeds from the field \<open>enabled_feeds_count\<close>; what it shows depends on
  no other field.
\<close>

theorem loadSchedulerStatus_reads_is_running_and_enabled_feeds_count:
  "getProp response ''data'' = Some (JObj status) \<Longrightarrow>
   loadSchedulerStatus (Resolved response) ui =
     (if truthy (objGet status ''is_running'')
      then (ui\<lparr>indicatorClass := ''status-indicator status-running'',
               statusText := ''Running ('' @ toStringJS (objGet status ''enabled_feeds_count'')
                               @ '' feeds scheduled)'',
               btnStartDisplay := ''none'',
               btnStopDisplay := ''inline-block''\<rparr>, JObj status)
      else (ui\<lparr>indicatorClass := ''status-indicator status-stopped'',
               statusText := ''Stopped ('' @ toStringJS (objGet status ''enabled_feeds_count'')
                               @ '' feeds enabled)'',
               btnStartDisplay := ''inline-block'',
               btnStopDisplay := ''none''\<rparr>, JObj status))"
  by (simp add: loadSchedulerStatus_def)

text \<open>A running scheduler with three feeds.\<close>

theorem loadSchedulerStatus_reads_is_running_witness:
  "getProp (JObj [(''success'', JBool True),
                  (''data'', JObj [(''is_running'', JBool True), (''enabled_feeds_count'', JNum 3)])])
     ''data''
     = Some (JObj [(''is_running'', JBool True), (''enabled_feeds_count'', JNum 3)])
   \<and> statusText (fst (loadSchedulerStatus
        (Resolved (JObj [(''success'', JBool True),
                         (''data'', JObj [(''is_running'', JBool True), (''enabled_feeds_count'', JNum 3)])]))
        \<lparr>indicatorClass = [], statusText = [], btnStartDisplay = [], btnStopDisplay = []\<rparr>))
     = ''Running (3 feeds scheduled)''"
proof -
  have h: "getProp (JObj [(''success'', JBool True),
                  (''data'', JObj [(''is_running'', JBool True), (''enabled_feeds_count'', JNum 3)])])
     ''data''
     = Some (JObj [(''is_running'', JBool True), (''enabled_feeds_count'', JNum 3)])"
    by (simp add: objGet_def)
  show ?thesis
    unfolding loadSchedulerStatus_reads_is_running_and_enabled_feeds_count [OF h]
    using h by (simp add: objGet_def string_of_int_def digitChar_def)
qed

text \<open>
  The claim as stated fails at a status object with exactly the fields \<open>state\<close>,
  \<open>scheduledCount\<close> and \<open>runningCount\<close>: the consumer reads neither the run state nor the
  count from them, and shows a running scheduler with three sources as stopped, with the
  count \<open>undefined\<close>.
\<close>

theorem loadSchedulerStatus_spec_fields_counterexample:
  "fst (loadSchedulerStatus
     (Resolved (JObj [(''data'', JObj [(''state'', JStr ''Running''), (''scheduledCount'', JNum 3),
                                       (''runningCount'', JNum 1)])]))
     \<lparr>indicatorClass = [], statusText = [], btnStartDisplay = [], btnStopDisplay = []\<rparr>)
   = \<lparr>indicatorClass = ''status-indicator status-stopped'',
      statusText = ''Stopped (undefined feeds enabled)'',
      btnStartDisplay = ''inline-block'', btnStopDisplay = ''none''\<rparr>"
  by (simp add: loadSchedulerStatus_def objGet_def)

section \<open>Properties of the filter engine\<close>

lemma firstMatch_find:
  "firstMatch m e rs = find (\<lambda>r. ruleEnabled r \<and> m r e = Some True) rs"
  by (induction rs) auto

lemma find_filter_conv:
  "find P xs = (case filter P xs of [] \<Rightarrow> None | x # _ \<Rightarrow> Some x)"
  by (induction xs) auto

lemma find_filter_conj: "find Q (filter P xs) = find (\<lambda>x. P x \<and> Q x) xs"
  by (induction xs) auto

lemma head_insort_key:
  "(case insort_key f x ys of [] \<Rightarrow> None | z # _ \<Rightarrow> Some z) =
     (case ys of [] \<Rightarrow> Some x | y # _ \<Rightarrow> if f x \<le> f y then Some x else Some y)"
  by (cases ys) auto

text \<open>The head of a stable sort is the first element of the list whose key is least.\<close>

lemma head_sort_key:
  fixes f :: "'a \<Rightarrow> 'k::linorder"
  shows "(case sort_key f xs of [] \<Rightarrow> None | z # _ \<Rightarrow> Some z) =
     find (\<lambda>x. \<forall>y\<in>set xs. f x \<le> f y) xs"
proof (induction xs)
  case Nil
  show ?case by simp
next
  case (Cons x xs)
  show ?case
  proof (cases "sort_key f xs")
    case Nil
    then have "xs = []" by (metis set_sort set_empty)
    then show ?thesis by simp
  next
    case (Cons y ys)
    with Cons.IH have fy: "find (\<lambda>x. \<forall>y\<in>set xs. f x \<le> f y) xs = Some y" by simp
    then have yin: "y \<in> set xs" and ymin: "\<forall>w\<in>set xs. f y \<le> f w"
      by (auto simp: find_Some_iff)
    have lhs: "(case sort_key f (x # xs) of [] \<Rightarrow> None | z # _ \<Rightarrow> Some z) =
        (if f x \<le> f y then Some x else Some y)"
      using Cons by (simp add: head_insort_key)
    show ?thesis
    proof (cases "f x \<le> f y")
      case True
      then have "\<forall>w\<in>set (x # xs). f x \<le> f w" using ymin by auto
      then show ?thesis using lhs True by simp
    next
      case False
      then have nx: "\<not> (\<forall>w\<in>set xs. f x \<le> f w)" using yin by auto
      have "find (\<lambda>z. \<forall>w\<in>set (x # xs). f z \<le> f w) xs = find (\<lambda>z. \<forall>w\<in>set xs. f z \<le> f w) xs"
      proof (rule find_cong [OF refl])
        fix z assume "z \<in> set xs"
        show "(\<forall>w\<in>set (x # xs). f z \<le> f w) = (\<forall>w\<in>set xs. f z \<le> f w)"
          using False yin by auto
      qed
      with nx fy lhs False show ?thesis by auto
    qed
  qed
qed

lemma find_sort_key:
  fixes f :: "'a \<Rightarrow> 'k::linorder"
  shows "find P (sort_key f xs) = find (\<lambda>x. P x \<and> (\<forall>y\<in>set xs. P y \<longrightarrow> f x \<le> f y)) xs"
proof -
  have "find P (sort_key f xs) = (case sort_key f (filter P xs) of [] \<Rightarrow> None | z # _ \<Rightarrow> Some z)"
    by (simp add: find_filter_conv filter_sort)
  also have "\<dots> = find (\<lambda>x. \<forall>y\<in>set (filter P xs). f x \<le> f y) (filter P xs)"
    by (rule head_sort_key)
  also have "\<dots> = find (\<lambda>x. P x \<and> (\<forall>y\<in>set xs. P y \<longrightarrow> f x \<le> f y)) xs"
    by (simp add: find_filter_conj Ball_def imp_conjL)
  finally show ?thesis .
qed

text \<open>
  C4. For every entry and every rule set, the rules are visited in descending priority, rules
  of equal priority in their declaration order, and the first enabled rule that matches
  decides: the deciding rule is the first declared among the enabled matching rules of the
  highest priority; an exclude rule rejects, an include rule accepts, and the entry is
  accepted when no enabled rule matches. In particular an entry that matches an exclude
  rule of priority 10 and an include rule of priority 5 is rejected.
\<close>

theorem accepts_first_matching_rule_wins:
  "sorted_wrt (\<lambda>a b. priority b \<le> priority a) (evaluationOrder rules)
   \<and> (\<forall>p. filter (\<lambda>r. priority r = p) (evaluationOrder rules) = filter (\<lambda>r. priority r = p) rules)
   \<and> accepts matches e rules =
     (case find (\<lambda>r. ruleEnabled r \<and> matches r e = Some True \<and>
                  (\<forall>r'\<in>set rules. ruleEnabled r' \<and> matches r' e = Some True
                      \<longrightarrow> priority r' \<le> priority r)) rules of
        None \<Rightarrow> True
      | Some r \<Rightarrow> mode r = Include)"
proof -
  have a: "sorted_wrt (\<lambda>a b. priority b \<le> priority a) (evaluationOrder rules)"
    using sorted_sort_key [of "\<lambda>r. - priority r" rules]
    by (simp add: evaluationOrder_def sorted_map)
  have b: "filter (\<lambda>r. priority r = p) (evaluationOrder rules) = filter (\<lambda>r. priority r = p) rules" for p
    using sort_key_stable [of "\<lambda>r. - priority r" "- p" rules]
    by (simp add: evaluationOrder_def)
  have c: "firstMatch matches e (evaluationOrder rules) =
     find (\<lambda>r. ruleEnabled r \<and> matches r e = Some True \<and>
                  (\<forall>r'\<in>set rules. ruleEnabled r' \<and> matches r' e = Some True
                      \<longrightarrow> priority r' \<le> priority r)) rules"
    by (simp add: firstMatch_find evaluationOrder_def find_sort_key conj_assoc)
  show ?thesis using a b
    by (auto simp: accepts_def c split: option.splits matchMode.splits)
qed

text \<open>
  The rules of the specification's example, in either declaration order, reject an entry
  that contains both \<open>spam\<close> and \<open>news\<close>.
\<close>

theorem accepts_first_matching_rule_wins_witness:
  "ruleMatches (\<lambda>p t. None) excludeSpam spamNewsEntry = Some True
   \<and> ruleMatches (\<lambda>p t. None) includeNews spamNewsEntry = Some True
   \<and> \<not> accepts (ruleMatches (\<lambda>p t. None)) spamNewsEntry [excludeSpam, includeNews]
   \<and> \<not> accepts (ruleMatches (\<lambda>p t. None)) spamNewsEntry [includeNews, excludeSpam]"
proof -
  have s: "ruleMatches (\<lambda>p t. None) excludeSpam spamNewsEntry = Some True"
    by (simp add: ruleMatches_def excludeSpam_def spamNewsEntry_def)
  have n: "ruleMatches (\<lambda>p t. None) includeNews spamNewsEntry = Some True"
    by (simp add: ruleMatches_def includeNews_def spamNewsEntry_def)
  have p: "priority excludeSpam = 10" "priority includeNews = 5"
    "ruleEnabled excludeSpam" "ruleEnabled includeNews"
    "mode excludeSpam = Exclude" "mode includeNews = Include"
    by (simp_all add: excludeSpam_def includeNews_def)
  have "\<not> accepts (ruleMatches (\<lambda>p t. None)) spamNewsEntry [excludeSpam, includeNews]"
    unfolding conjunct2 [OF conjunct2 [OF accepts_first_matching_rule_wins]]
    by (simp add: s n p)
  moreover have "\<not> accepts (ruleMatches (\<lambda>p t. None)) spamNewsEntry [includeNews, excludeSpam]"
    unfolding conjunct2 [OF conjunct2 [OF accepts_first_matching_rule_wins]]
    by (simp add: s n p)
  ultimately show ?thesis using s n by blast
qed

section \<open>Properties of the scheduler's due times\<close>

text \<open>
  C5. For every source (enabled ones in particular), the next-due time is
  \<open>lastFetched + max(intervalMinutes, globalMinIntervalMinutes)\<close>, and the source is due
  exactly when the current time is at or after it; the scan enqueues exactly the enabled
  sources that are due. Hence the time between a fetch and the next due time is never
  under the global minimum, and with the default minimum of 15 minutes a source configured
  with 10 minutes is due 15 minutes after its last fetch, not 10.
\<close>

theorem nextDue_floor_clamped:
  "nextDue g s = lastFetched s + max (intervalMinutes s) g
   \<and> (isDue g now s \<longleftrightarrow> lastFetched s + max (intervalMinutes s) g \<le> now)
   \<and> lastFetched s + g \<le> nextDue g s
   \<and> (s \<in> set (dueSources g now srcs) \<longleftrightarrow>
        s \<in> set srcs \<and> enabled s \<and> lastFetched s + max (intervalMinutes s) g \<le> now)
   \<and> (intervalMinutes s = 10 \<longrightarrow>
        nextDue defaultMinIntervalMinutes s = lastFetched s + 15
        \<and> \<not> isDue defaultMinIntervalMinutes (lastFetched s + 10) s
        \<and> isDue defaultMinIntervalMinutes (lastFetched s + 15) s)"
  by (auto simp: nextDue_def isDue_def effectiveIntervalMinutes_def dueSources_def
      defaultMinIntervalMinutes_def)

text \<open>The sample source, last fetched at minute 1000 with an interval of 10 minutes.\<close>

theorem nextDue_floor_clamped_witness:
  "enabled sampleSource \<and> intervalMinutes sampleSource = 10
   \<and> nextDue defaultMinIntervalMinutes sampleSource = 1015
   \<and> \<not> isDue defaultMinIntervalMinutes 1010 sampleSource
   \<and> isDue defaultMinIntervalMinutes 1015 sampleSource"
proof -
  have i: "intervalMinutes sampleSource = 10" "lastFetched sampleSource = 1000"
    "enabled sampleSource"
    by (simp_all add: sampleSource_def)
  show ?thesis
    using nextDue_floor_clamped [of defaultMinIntervalMinutes sampleSource 0 "[]"] i
    by simp
qed

section \<open>Properties of the fetch cycle\<close>

text \<open>
  C6. For every source whose fetch returns not-modified, the fetch cycle completes without
  error and returns \<open>FetchCycleResult{fetched:0, new:0, duplicate:0, filteredOut:0,
  errors:0}\<close>; the source's \<open>lastFetched\<close> is updated to the current time, its validator
  tokens are unchanged, its consecutive-error count is not incremented, and its known
  signatures are unchanged.
\<close>

theorem fetchCycle_not_modified:
  "fetch pl src = NotModified \<Longrightarrow>
     fst (fst (fetchCycle pl rules now src known))
       = \<lparr>fetched = 0, new = 0, duplicate = 0, filteredOut = 0, errors = 0\<rparr>
     \<and> lastFetched (snd (fst (fetchCycle pl rules now src known))) = now
     \<and> tokens (snd (fst (fetchCycle pl rules now src known))) = tokens src
     \<and> consecutiveErrorCount (snd (fst (fetchCycle pl rules now src known)))
         \<le> consecutiveErrorCount src
     \<and> snd (fetchCycle pl rules now src known) = known"
  by (simp add: fetchCycle_def emptyResult_def)

text \<open>The sample source, with an ETag and two earlier failures, at minute 1100.\<close>

theorem fetchCycle_not_modified_witness:
  "fetch samplePipeline sampleSource = NotModified
   \<and> fst (fst (fetchCycle samplePipeline [excludeSpam] 1100 sampleSource []))
       = \<lparr>fetched = 0, new = 0, duplicate = 0, filteredOut = 0, errors = 0\<rparr>
   \<and> lastFetched (snd (fst (fetchCycle samplePipeline [excludeSpam] 1100 sampleSource []))) = 1100
   \<and> tokens (snd (fst (fetchCycle samplePipeline [excludeSpam] 1100 sampleSource [])))
       = \<lparr>etag = Some ''abc'', lastModified = None\<rparr>"
proof -
  have h: "fetch samplePipeline sampleSource = NotModified"
    by (simp add: samplePipeline_def)
  have t: "tokens sampleSource = \<lparr>etag = Some ''abc'', lastModified = None\<rparr>"
    by (simp add: sampleSource_def)
  show ?thesis
    using fetchCycle_not_modified [OF h, of "[excludeSpam]" 1100 "[]"] h t by simp
qed

section \<open>Properties of the deduplicator\<close>

text \<open>
  C7. For every pair of entries of the same source, the first already committed to the
  source's known signatures: under the strict strategy the second is a duplicate whenever
  their canonical links match, whatever their titles; under the medium strategy whenever
  their normalized titles are identical, whatever their links; under the relaxed strategy
  whenever the similarity of their normalized contents is at least the configured
  threshold, whatever their links and titles.
\<close>

theorem isDuplicate_by_strategy:
  "(dedupStrategy cfg = Strict \<and> canonicalLink dops (link a) = canonicalLink dops (link b)
      \<longrightarrow> isDuplicate dops cfg src b (commitSignatures dops src a known (sourceId src)))
   \<and> (dedupStrategy cfg = Medium \<and> normalizeTitle dops (title a) = normalizeTitle dops (title b)
      \<longrightarrow> isDuplicate dops cfg src b (commitSignatures dops src a known (sourceId src)))
   \<and> (dedupStrategy cfg = Relaxed
       \<and> similarityThreshold cfg
           \<le> similarity dops (normalizeContent dops (content b)) (normalizeContent dops (content a))
      \<longrightarrow> isDuplicate dops cfg src b (commitSignatures dops src a known (sourceId src)))"
  by (simp add: isDuplicate_def commitSignatures_def signaturesFor_def linkSeen_def titleSeen_def)

text \<open>
  Three candidates against the sample entry: one with the same canonical link and another
  title, one with the same title and another link, one with another link and title and
  a similar content.
\<close>

theorem isDuplicate_by_strategy_witness:
  "canonicalLink sampleOps (link seenEntry) = canonicalLink sampleOps (link sameLinkEntry)
   \<and> title seenEntry \<noteq> title sameLinkEntry
   \<and> isDuplicate sampleOps \<lparr>dedupStrategy = Strict, similarityThreshold = 85 / 100\<rparr> sampleSource
        sameLinkEntry (commitSignatures sampleOps sampleSource seenEntry (\<lambda>i. []) (sourceId sampleSource))
   \<and> normalizeTitle sampleOps (title seenEntry) = normalizeTitle sampleOps (title sameTitleEntry)
   \<and> link seenEntry \<noteq> link sameTitleEntry
   \<and> isDuplicate sampleOps \<lparr>dedupStrategy = Medium, similarityThreshold = 85 / 100\<rparr> sampleSource
        sameTitleEntry (commitSignatures sampleOps sampleSource seenEntry (\<lambda>i. []) (sourceId sampleSource))
   \<and> link seenEntry \<noteq> link similarEntry \<and> title seenEntry \<noteq> title similarEntry
   \<and> isDuplicate sampleOps \<lparr>dedupStrategy = Relaxed, similarityThreshold = 85 / 100\<rparr> sampleSource
        similarEntry (commitSignatures sampleOps sampleSource seenEntry (\<lambda>i. []) (sourceId sampleSource))"
proof -
  have l: "canonicalLink sampleOps (link seenEntry) = canonicalLink sampleOps (link sameLinkEntry)"
    "title seenEntry \<noteq> title sameLinkEntry"
    by (simp_all add: sampleOps_def seenEntry_def sameLinkEntry_def)
  have t: "normalizeTitle sampleOps (title seenEntry) = normalizeTitle sampleOps (title sameTitleEntry)"
    "link seenEntry \<noteq> link sameTitleEntry"
    by (simp_all add: sampleOps_def seenEntry_def sameTitleEntry_def)
  have c: "(85 / 100 :: real) \<le> similarity sampleOps (normalizeContent sampleOps (content similarEntry))
        (normalizeContent sampleOps (content seenEntry))"
    "link seenEntry \<noteq> link similarEntry" "title seenEntry \<noteq> title similarEntry"
    by (simp_all add: sampleOps_def seenEntry_def similarEntry_def)
  have "isDuplicate sampleOps \<lparr>dedupStrategy = Strict, similarityThreshold = 85 / 100\<rparr> sampleSource
        sameLinkEntry (commitSignatures sampleOps sampleSource seenEntry (\<lambda>i. []) (sourceId sampleSource))"
    using isDuplicate_by_strategy
      [of "\<lparr>dedupStrategy = Strict, similarityThreshold = 85 / 100\<rparr>" sampleOps seenEntry
          sameLinkEntry sampleSource "\<lambda>i. []"] l
    by simp
  moreover have "isDuplicate sampleOps \<lparr>dedupStrategy = Medium, similarityThreshold = 85 / 100\<rparr> sampleSource
        sameTitleEntry (commitSignatures sampleOps sampleSource seenEntry (\<lambda>i. []) (sourceId sampleSource))"
    using isDuplicate_by_strategy
      [of "\<lparr>dedupStrategy = Medium, similarityThreshold = 85 / 100\<rparr>" sampleOps seenEntry
          sameTitleEntry sampleSource "\<lambda>i. []"] t
    by simp
  moreover have "isDuplicate sampleOps \<lparr>dedupStrategy = Relaxed, similarityThreshold = 85 / 100\<rparr> sampleSource
        similarEntry (commitSignatures sampleOps sampleSource seenEntry (\<lambda>i. []) (sourceId sampleSource))"
    using isDuplicate_by_strategy
      [of "\<lparr>dedupStrategy = Relaxed, similarityThreshold = 85 / 100\<rparr>" sampleOps seenEntry
          similarEntry sampleSource "\<lambda>i. []"] c
    by simp
  ultimately show ?thesis using l t c by blast
qed

end
